theory Spec2Isabelle
  imports Main
begin

section \<open>Data model\<close>

subsection \<open>Errors\<close>

text \<open>
  Go \<open>error\<close> values. An error raised outside the plugin (by the sink callback, by
  the transport, by \<open>encoding/json\<close>) is opaque and carries its message. Every
  \<open>fmt.Errorf("...: %w", err)\<close> of the plugin is a constructor that wraps the inner
  error:
  \<^item> \<open>StreamingCallbackError e\<close> is \<open>"streaming callback error: %w"\<close>;
  \<^item> \<open>StreamError e\<close> is \<open>"stream error: %w"\<close>;
  \<^item> \<open>UnmarshalToolArgumentsError name e\<close> is
    \<open>"failed to unmarshal tool arguments for '%s': %w"\<close>;
  \<^item> \<open>ConvertToolCallsError e\<close> is \<open>"failed to convert tool calls: %w"\<close>.
\<close>

datatype error =
    ExternalError string
  | StreamingCallbackError error
  | StreamError error
  | UnmarshalToolArgumentsError string error
  | ConvertToolCallsError error

subsection \<open>Provider-agnostic messages (package ai of the host framework)\<close>

text \<open>
  \<open>ai.Role\<close> is a Go string type; the four roles are string constants and the
  translator switches on the string.
\<close>

type_synonym Role = string

definition RoleSystem :: Role where "RoleSystem = ''system''"
definition RoleUser :: Role where "RoleUser = ''user''"
definition RoleModel :: Role where "RoleModel = ''model''"
definition RoleTool :: Role where "RoleTool = ''tool''"

text \<open>
  Modelled from the spec: \<open>ai.Part\<close> is declared by the host framework, not by this
  repository. It is a tagged variant, built by the framework's constructors
  \<open>NewTextPart\<close>, \<open>NewMediaPart\<close> (MIME type, contents), \<open>NewToolRequestPart\<close>
  and \<open>NewToolResponsePart\<close>; the plugin asks for the kind through \<open>IsText\<close>,
  \<open>IsToolRequest\<close> and \<open>IsToolResponse\<close> and reads the fields \<open>Text\<close>,
  \<open>ToolRequest\<close> and \<open>ToolResponse\<close>. The type \<open>'j\<close> stands for the
  structured Go values carried as tool input and output; \<open>None\<close> is the nil value
  (a nil \<open>map[string]interface{}\<close>).
\<close>

record 'j ToolRequest =
  tr_Name :: string
  tr_Input :: "'j option"

record 'j ToolResponse =
  tp_Name :: string
  tp_Output :: "'j option"

datatype 'j Part =
    NewTextPart string
  | NewMediaPart string string
  | NewToolRequestPart "'j ToolRequest"
  | NewToolResponsePart "'j ToolResponse"

text \<open>
  The struct field \<open>Text\<close>: the text of a text part, the contents of a media part,
  and the empty string (the zero value) for the parts that do not set it.
\<close>

fun p_Text :: "'j Part \<Rightarrow> string" where
  "p_Text (NewTextPart s) = s"
| "p_Text (NewMediaPart mimeType contents) = contents"
| "p_Text (NewToolRequestPart r) = []"
| "p_Text (NewToolResponsePart r) = []"

fun IsText :: "'j Part \<Rightarrow> bool" where
  "IsText (NewTextPart s) = True"
| "IsText p = False"

fun IsToolRequest :: "'j Part \<Rightarrow> bool" where
  "IsToolRequest (NewToolRequestPart r) = True"
| "IsToolRequest p = False"

fun IsToolResponse :: "'j Part \<Rightarrow> bool" where
  "IsToolResponse (NewToolResponsePart r) = True"
| "IsToolResponse p = False"

record 'j Message =
  msg_Role :: Role
  msg_Content :: "'j Part list"

text \<open>
  \<open>ai.FinishReason\<close>: the closed enumeration of the spec. \<open>ai.GenerationUsage\<close>
  holds the token counters; a \<open>ModelResponse\<close> points to one, and the pointer is nil
  (\<open>None\<close>) when the plugin leaves the field unset.
\<close>

datatype FinishReason =
    FinishReasonStop
  | FinishReasonLength
  | FinishReasonBlocked
  | FinishReasonOther
  | FinishReasonUnknown

record GenerationUsage =
  gu_InputTokens :: int
  gu_OutputTokens :: int
  gu_TotalTokens :: int

record 'j ModelResponse =
  r_Message :: "'j Message"
  r_FinishReason :: FinishReason
  r_Usage :: "GenerationUsage option"

record 'j ModelResponseChunk =
  mrc_Content :: "'j Part list"

subsection \<open>Wire shapes (the chat-completion client library)\<close>

text \<open>
  Only the fields the plugin reads. A wire tool call is a union; \<open>AsFunction\<close> gives
  its function view, whose \<open>ID\<close> and \<open>Function\<close> are the union's own fields.
\<close>

record FunctionCall =
  fn_Name :: string
  fn_Arguments :: string

record ChatCompletionMessageToolCall =
  tc_ID :: string
  tc_Function :: FunctionCall

record ChatCompletionMessage =
  m_Content :: string
  m_ToolCalls :: "ChatCompletionMessageToolCall list"

record ChatCompletionChoice =
  c_Message :: ChatCompletionMessage
  c_FinishReason :: string

record CompletionUsage =
  cu_PromptTokens :: int
  cu_CompletionTokens :: int
  cu_TotalTokens :: int

record ChatCompletion =
  cc_Choices :: "ChatCompletionChoice list"
  cc_Usage :: CompletionUsage

section \<open>The finish-reason mapper\<close>

definition convertFinishReason :: "string \<Rightarrow> FinishReason" where
  "convertFinishReason reason =
     (if reason = ''stop'' then FinishReasonStop
      else if reason = ''length'' then FinishReasonLength
      else if reason = ''content_filter'' then FinishReasonBlocked
      else if reason = ''tool_calls'' \<or> reason = ''function_call'' then FinishReasonStop
      else FinishReasonOther)"

section \<open>The synchronous assembler\<close>

text \<open>
  \<open>json.Unmarshal\<close> into a nil \<open>map[string]interface{}\<close> is the parameter
  \<open>unmarshal\<close>: \<open>Inl\<close> is the decoder's error, \<open>Inr\<close> the value the map holds
  afterwards.

  The loop over the tool calls of the first choice: a call with an empty id is passed
  over, a call whose arguments do not decode is passed over (\<open>continue\<close>), any other
  call appends one tool-request part.
\<close>

fun convertResponseToolCalls ::
  "(string \<Rightarrow> error + 'j option) \<Rightarrow> ChatCompletionMessageToolCall list \<Rightarrow> 'j Part list" where
  "convertResponseToolCalls unmarshal [] = []"
| "convertResponseToolCalls unmarshal (toolCall # rest) =
     (if tc_ID toolCall \<noteq> []
      then (case unmarshal (fn_Arguments (tc_Function toolCall)) of
              Inl err \<Rightarrow> convertResponseToolCalls unmarshal rest
            | Inr args \<Rightarrow>
                NewToolRequestPart
                  \<lparr>tr_Name = fn_Name (tc_Function toolCall), tr_Input = args\<rparr>
                # convertResponseToolCalls unmarshal rest)
      else convertResponseToolCalls unmarshal rest)"

text \<open>
  The counters of the wire response are 64-bit and are converted with \<open>int(...)\<close>,
  which keeps the value on a 64-bit platform; no arithmetic is done on them.
\<close>

definition convertResponse ::
  "(string \<Rightarrow> error + 'j option) \<Rightarrow> ChatCompletion \<Rightarrow> 'j ModelResponse" where
  "convertResponse unmarshal resp =
     (case cc_Choices resp of
        [] \<Rightarrow>
          \<lparr>r_Message = \<lparr>msg_Role = RoleModel, msg_Content = []\<rparr>,
           r_FinishReason = FinishReasonUnknown,
           r_Usage = None\<rparr>
      | choice # _ \<Rightarrow>
          (let content =
                 (if m_Content (c_Message choice) \<noteq> []
                  then [NewTextPart (m_Content (c_Message choice))] else [])
                 @ convertResponseToolCalls unmarshal (m_ToolCalls (c_Message choice));
               finishReason = convertFinishReason (c_FinishReason choice);
               usage =
                 (if cu_PromptTokens (cc_Usage resp) > 0
                  then \<lparr>gu_InputTokens = cu_PromptTokens (cc_Usage resp),
                        gu_OutputTokens = cu_CompletionTokens (cc_Usage resp),
                        gu_TotalTokens = cu_TotalTokens (cc_Usage resp)\<rparr>
                  else \<lparr>gu_InputTokens = 0, gu_OutputTokens = 0, gu_TotalTokens = 0\<rparr>)
           in \<lparr>r_Message = \<lparr>msg_Role = RoleModel, msg_Content = content\<rparr>,
               r_FinishReason = finishReason,
               r_Usage = Some usage\<rparr>))"

text \<open>
  The counters a caller reads off a response, in the spec's data model (token-usage
  counters, zero-valued when absent): those of the usage record, and zero for each when
  the response carries no usage record. It is used only to state what the spec says
  about counters next to what the field \<open>r_Usage\<close> holds.
\<close>

definition usageCounters :: "GenerationUsage option \<Rightarrow> int \<times> int \<times> int" where
  "usageCounters usage =
     (case usage of
        None \<Rightarrow> (0, 0, 0)
      | Some u \<Rightarrow> (gu_InputTokens u, gu_OutputTokens u, gu_TotalTokens u))"

section \<open>The stream accumulator\<close>

record ChatCompletionChunkChoiceDeltaToolCall =
  dtc_Index :: int
  dtc_ID :: string
  dtc_Function :: FunctionCall

record ChatCompletionChunkChoiceDelta =
  d_Content :: string
  d_ToolCalls :: "ChatCompletionChunkChoiceDeltaToolCall list"

record ChatCompletionChunkChoice =
  chc_Delta :: ChatCompletionChunkChoiceDelta

record ChatCompletionChunk =
  chunk_Choices :: "ChatCompletionChunkChoice list"

text \<open>
  \<open>toolCallAccumulator\<close>: the argument builder is the string written so far;
  \<open>WriteString\<close> appends to it.
\<close>

record toolCallAccumulator =
  acc_id :: string
  acc_name :: string
  acc_arguments :: string

text \<open>
  The body of the loop over the tool-call deltas of one delta, on the map
  \<open>toolCallsMap\<close>: the entry at the delta's index is created on first use with the
  delta's id, then a non-empty name is stored and non-empty arguments are appended.
\<close>

definition accumulateToolCallDelta ::
  "(int \<rightharpoonup> toolCallAccumulator) \<Rightarrow> ChatCompletionChunkChoiceDeltaToolCall
     \<Rightarrow> (int \<rightharpoonup> toolCallAccumulator)" where
  "accumulateToolCallDelta toolCallsMap toolCallDelta =
     (let idx = dtc_Index toolCallDelta;
          entry =
            (case toolCallsMap idx of
               None \<Rightarrow> \<lparr>acc_id = dtc_ID toolCallDelta, acc_name = [], acc_arguments = []\<rparr>
             | Some acc \<Rightarrow> acc);
          named =
            (if fn_Name (dtc_Function toolCallDelta) \<noteq> []
             then entry\<lparr>acc_name := fn_Name (dtc_Function toolCallDelta)\<rparr>
             else entry);
          written =
            (if fn_Arguments (dtc_Function toolCallDelta) \<noteq> []
             then named\<lparr>acc_arguments :=
                    acc_arguments named @ fn_Arguments (dtc_Function toolCallDelta)\<rparr>
             else named)
      in toolCallsMap(idx \<mapsto> written))"

text \<open>
  The state of the loop over the stream: the text builder, the map of accumulators, and
  the state of the caller's sink. The sink is a Go closure; it is modelled as a function
  of its own state that returns its error (\<open>None\<close> for nil) and its next state.
\<close>

record 's streamState =
  st_fullText :: string
  st_toolCallsMap :: "int \<rightharpoonup> toolCallAccumulator"
  st_sink :: 's

type_synonym ('j, 's) streamCallback = "'s \<Rightarrow> 'j ModelResponseChunk \<Rightarrow> error option \<times> 's"

text \<open>
  One iteration of \<open>for stream.Next()\<close>. \<open>Inl\<close> is the early return from inside the
  loop: the error returned, and the loop state at the moment of the return.
\<close>

definition handleContent ::
  "('j, 's) streamCallback option \<Rightarrow> ChatCompletionChunkChoiceDelta \<Rightarrow> 's streamState
     \<Rightarrow> (error \<times> 's streamState) + 's streamState" where
  "handleContent cb delta st =
     (if d_Content delta \<noteq> []
      then (let st1 = st\<lparr>st_fullText := st_fullText st @ d_Content delta\<rparr> in
            case cb of
              None \<Rightarrow> Inr st1
            | Some f \<Rightarrow>
                (case f (st_sink st1) \<lparr>mrc_Content = [NewTextPart (d_Content delta)]\<rparr> of
                   (Some err, s') \<Rightarrow> Inl (StreamingCallbackError err, st1\<lparr>st_sink := s'\<rparr>)
                 | (None, s') \<Rightarrow> Inr (st1\<lparr>st_sink := s'\<rparr>)))
      else Inr st)"

definition processChunk ::
  "('j, 's) streamCallback option \<Rightarrow> ChatCompletionChunk \<Rightarrow> 's streamState
     \<Rightarrow> (error \<times> 's streamState) + 's streamState" where
  "processChunk cb chunk st =
     (case chunk_Choices chunk of
        [] \<Rightarrow> Inr st
      | choice # _ \<Rightarrow>
          (case handleContent cb (chc_Delta choice) st of
             Inl stop \<Rightarrow> Inl stop
           | Inr st1 \<Rightarrow>
               Inr (st1\<lparr>st_toolCallsMap :=
                      foldl accumulateToolCallDelta (st_toolCallsMap st1)
                        (d_ToolCalls (chc_Delta choice))\<rparr>)))"

fun streamLoop ::
  "('j, 's) streamCallback option \<Rightarrow> ChatCompletionChunk list \<Rightarrow> 's streamState
     \<Rightarrow> (error \<times> 's streamState) + 's streamState" where
  "streamLoop cb [] st = Inr st"
| "streamLoop cb (chunk # rest) st =
     (case processChunk cb chunk st of
        Inl stop \<Rightarrow> Inl stop
      | Inr st1 \<Rightarrow> streamLoop cb rest st1)"

text \<open>
  \<open>convertToolCallsToParts\<close> ranges over the map. Go visits every key once, in an
  order it does not specify: the order is the parameter \<open>keys\<close>, and \<open>rangeOrder\<close>
  says that a list is one of the orders the range over a map can take.
\<close>

definition rangeOrder :: "(int \<rightharpoonup> toolCallAccumulator) \<Rightarrow> int list \<Rightarrow> bool" where
  "rangeOrder toolCallsMap keys = (distinct keys \<and> set keys = dom toolCallsMap)"

fun convertToolCallsToParts ::
  "(string \<Rightarrow> error + 'j option) \<Rightarrow> (int \<rightharpoonup> toolCallAccumulator) \<Rightarrow> int list
     \<Rightarrow> error + 'j Part list" where
  "convertToolCallsToParts unmarshal toolCallsMap [] = Inr []"
| "convertToolCallsToParts unmarshal toolCallsMap (k # keys) =
     (case toolCallsMap k of
        None \<Rightarrow> convertToolCallsToParts unmarshal toolCallsMap keys
      | Some toolCall \<Rightarrow>
          (if acc_name toolCall = []
           then convertToolCallsToParts unmarshal toolCallsMap keys
           else (case (if length (acc_arguments toolCall) > 0
                       then unmarshal (acc_arguments toolCall) else Inr None) of
                   Inl err \<Rightarrow> Inl (UnmarshalToolArgumentsError (acc_name toolCall) err)
                 | Inr args \<Rightarrow>
                     (case convertToolCallsToParts unmarshal toolCallsMap keys of
                        Inl e \<Rightarrow> Inl e
                      | Inr parts \<Rightarrow>
                          Inr (NewToolRequestPart
                                 \<lparr>tr_Name = acc_name toolCall, tr_Input = args\<rparr> # parts)))))"

text \<open>
  \<open>generateTextStream\<close>. The stream of the client library is what the loop reads from
  it: the chunks \<open>stream.Next()\<close> delivers, in order, and the error \<open>stream.Err()\<close>
  reports once \<open>Next\<close> has returned false (\<open>None\<close> for nil). The loop starts
  from \<open>streamStart\<close>: an empty text builder, an empty map, and the sink in the state
  \<open>sinkStart\<close> it has when the call starts.
\<close>

definition streamStart :: "'s \<Rightarrow> 's streamState" where
  "streamStart sinkStart = \<lparr>st_fullText = [], st_toolCallsMap = Map.empty, st_sink = sinkStart\<rparr>"

definition generateTextStream ::
  "(string \<Rightarrow> error + 'j option) \<Rightarrow> int list \<Rightarrow> ('j, 's) streamCallback option
     \<Rightarrow> ChatCompletionChunk list \<Rightarrow> error option \<Rightarrow> 's \<Rightarrow> error + 'j ModelResponse" where
  "generateTextStream unmarshal keys cb chunks streamErr sinkStart =
     (case streamLoop cb chunks (streamStart sinkStart) of
        Inl (err, st) \<Rightarrow> Inl err
      | Inr st \<Rightarrow>
          (case streamErr of
             Some err \<Rightarrow> Inl (StreamError err)
           | None \<Rightarrow>
               (let content =
                      (if length (st_fullText st) > 0 then [NewTextPart (st_fullText st)] else [])
                in case convertToolCallsToParts unmarshal (st_toolCallsMap st) keys of
                     Inl err \<Rightarrow> Inl (ConvertToolCallsError err)
                   | Inr toolParts \<Rightarrow>
                       Inr \<lparr>r_Message = \<lparr>msg_Role = RoleModel, msg_Content = content @ toolParts\<rparr>,
                            r_FinishReason = FinishReasonStop,
                            r_Usage = None\<rparr>)))"

section \<open>The message translator\<close>

record ChatCompletionMessageFunctionToolCallParam =
  tcp_ID :: string
  tcp_Type :: string
  tcp_Name :: string
  tcp_Arguments :: string

text \<open>
  The wire message union: a system or a user message with its content, an assistant
  message with its content and tool calls, a tool message with its content and its
  tool-call id.
\<close>

datatype ChatCompletionMessageParamUnion =
    OfSystem string
  | OfUser string
  | OfAssistant string "ChatCompletionMessageFunctionToolCallParam list"
  | OfTool string string

text \<open>
  \<open>json.Marshal\<close> of a tool input or output is the parameter \<open>marshal\<close>.
  The loop over the parts of a model-role message gives the concatenated text and the
  tool calls; the loop over the parts of a tool-role message gives one wire message for
  each tool-response part.
\<close>

fun convertModelContent ::
  "('j option \<Rightarrow> error + string) \<Rightarrow> 'j Part list
     \<Rightarrow> string \<times> ChatCompletionMessageFunctionToolCallParam list" where
  "convertModelContent marshal [] = ([], [])"
| "convertModelContent marshal (part # rest) =
     (let (textContent, toolCalls) = convertModelContent marshal rest in
      if IsText part then (p_Text part @ textContent, toolCalls)
      else (case part of
              NewToolRequestPart toolReq \<Rightarrow>
                (case marshal (tr_Input toolReq) of
                   Inl err \<Rightarrow> (textContent, toolCalls)
                 | Inr argsJSON \<Rightarrow>
                     (textContent,
                      \<lparr>tcp_ID = ''call_'' @ tr_Name toolReq, tcp_Type = ''function'',
                       tcp_Name = tr_Name toolReq, tcp_Arguments = argsJSON\<rparr> # toolCalls))
            | _ \<Rightarrow> (textContent, toolCalls)))"

fun convertToolContent ::
  "('j option \<Rightarrow> error + string) \<Rightarrow> 'j Part list \<Rightarrow> ChatCompletionMessageParamUnion list" where
  "convertToolContent marshal [] = []"
| "convertToolContent marshal (part # rest) =
     (case part of
        NewToolResponsePart toolResp \<Rightarrow>
          (case marshal (tp_Output toolResp) of
             Inl err \<Rightarrow> convertToolContent marshal rest
           | Inr outputJSON \<Rightarrow>
               OfTool outputJSON (''call_'' @ tp_Name toolResp)
               # convertToolContent marshal rest)
      | _ \<Rightarrow> convertToolContent marshal rest)"

text \<open>
  One iteration of the loop over the messages: the wire messages appended for one
  message.
\<close>

definition convertMessage ::
  "('j option \<Rightarrow> error + string) \<Rightarrow> 'j Message \<Rightarrow> ChatCompletionMessageParamUnion list" where
  "convertMessage marshal msg =
     (case msg_Content msg of
        [] \<Rightarrow> []
      | first # _ \<Rightarrow>
          (if msg_Role msg = RoleSystem then [OfSystem (p_Text first)]
           else if msg_Role msg = RoleUser then [OfUser (p_Text first)]
           else if msg_Role msg = RoleModel then
             (let (textContent, toolCalls) = convertModelContent marshal (msg_Content msg)
              in [OfAssistant textContent toolCalls])
           else if msg_Role msg = RoleTool then convertToolContent marshal (msg_Content msg)
           else []))"

fun convertMessagesToOpenAI ::
  "('j option \<Rightarrow> error + string) \<Rightarrow> 'j Message list \<Rightarrow> ChatCompletionMessageParamUnion list" where
  "convertMessagesToOpenAI marshal [] = []"
| "convertMessagesToOpenAI marshal (msg # rest) =
     convertMessage marshal msg @ convertMessagesToOpenAI marshal rest"

section \<open>Fragments of a delta sequence\<close>

text \<open>
  What the theorems below say about a delta sequence is said in terms of the tool-call
  fragments it carries: those of the first choice of a chunk (the only ones the loop
  reads), those of a whole sequence in arrival order, the fragments at one index, and
  the non-empty names the fragments at one index carry.
\<close>

definition deltaToolCalls :: "ChatCompletionChunk \<Rightarrow> ChatCompletionChunkChoiceDeltaToolCall list" where
  "deltaToolCalls chunk =
     (case chunk_Choices chunk of [] \<Rightarrow> [] | choice # _ \<Rightarrow> d_ToolCalls (chc_Delta choice))"

definition streamToolCalls :: "ChatCompletionChunk list \<Rightarrow> ChatCompletionChunkChoiceDeltaToolCall list" where
  "streamToolCalls chunks = concat (map deltaToolCalls chunks)"

definition fragmentsAt ::
  "int \<Rightarrow> ChatCompletionChunkChoiceDeltaToolCall list \<Rightarrow> ChatCompletionChunkChoiceDeltaToolCall list" where
  "fragmentsAt i frags = filter (\<lambda>f. dtc_Index f = i) frags"

definition namesAt :: "int \<Rightarrow> ChatCompletionChunkChoiceDeltaToolCall list \<Rightarrow> string list" where
  "namesAt i frags =
     filter (\<lambda>n. n \<noteq> []) (map (\<lambda>f. fn_Name (dtc_Function f)) (fragmentsAt i frags))"

text \<open>
  The delta sequence of the spec's interleaving example: index 0 with name foo and the
  first half of its arguments, then index 1 with name bar and its arguments, then index
  0 with the second half of its arguments and no name.
\<close>

definition interleavedDeltas :: "ChatCompletionChunk list" where
  \<open>interleavedDeltas =
     [\<lparr>chunk_Choices =
         [\<lparr>chc_Delta =
             \<lparr>d_Content = [],
              d_ToolCalls =
                [\<lparr>dtc_Index = 0, dtc_ID = ''call_0'',
                  dtc_Function = \<lparr>fn_Name = ''foo'', fn_Arguments = ''{"a":1''\<rparr>\<rparr>]\<rparr>\<rparr>]\<rparr>,
      \<lparr>chunk_Choices =
         [\<lparr>chc_Delta =
             \<lparr>d_Content = [],
              d_ToolCalls =
                [\<lparr>dtc_Index = 1, dtc_ID = ''call_1'',
                  dtc_Function = \<lparr>fn_Name = ''bar'', fn_Arguments = ''{}''\<rparr>\<rparr>]\<rparr>\<rparr>]\<rparr>,
      \<lparr>chunk_Choices =
         [\<lparr>chc_Delta =
             \<lparr>d_Content = [],
              d_ToolCalls =
                [\<lparr>dtc_Index = 0, dtc_ID = [],
                  dtc_Function = \<lparr>fn_Name = [], fn_Arguments = ''}''\<rparr>\<rparr>]\<rparr>\<rparr>]\<rparr>]\<close>

section \<open>Properties of the finish-reason mapper\<close>

text \<open>
  Claim C5. The finish-reason mapper is a total function with exactly this table:
  "stop" gives stop, "length" gives length, "content_filter" gives blocked,
  "tool_calls" and "function_call" give stop, every other string gives other; and no
  string gives unknown.
\<close>

theorem convertFinishReason_table:
  "convertFinishReason ''stop'' = FinishReasonStop
   \<and> convertFinishReason ''length'' = FinishReasonLength
   \<and> convertFinishReason ''content_filter'' = FinishReasonBlocked
   \<and> convertFinishReason ''tool_calls'' = FinishReasonStop
   \<and> convertFinishReason ''function_call'' = FinishReasonStop
   \<and> (\<forall>reason. reason \<notin> {''stop'', ''length'', ''content_filter'', ''tool_calls'', ''function_call''}
         \<longrightarrow> convertFinishReason reason = FinishReasonOther)
   \<and> (\<forall>reason. convertFinishReason reason \<noteq> FinishReasonUnknown)"
  by (simp add: convertFinishReason_def)

theorem convertFinishReason_table_witness:
  "''anything_else'' \<notin> {''stop'', ''length'', ''content_filter'', ''tool_calls'', ''function_call''}
   \<and> convertFinishReason ''anything_else'' = FinishReasonOther
   \<and> convertFinishReason ''anything_else'' \<noteq> FinishReasonUnknown"
  using convertFinishReason_table by simp

section \<open>Properties of the synchronous assembler\<close>

text \<open>
  Claim C6. For every wire response with zero choices the synchronous assembler returns
  a response (it has no error result) whose message has role model and no parts and
  whose finish reason is unknown.
\<close>

theorem convertResponse_zero_choices:
  "cc_Choices resp = [] \<Longrightarrow>
     msg_Role (r_Message (convertResponse unmarshal resp)) = RoleModel
     \<and> msg_Content (r_Message (convertResponse unmarshal resp)) = []
     \<and> r_FinishReason (convertResponse unmarshal resp) = FinishReasonUnknown"
  by (simp add: convertResponse_def)

theorem convertResponse_zero_choices_witness:
  "cc_Choices \<lparr>cc_Choices = [], cc_Usage = \<lparr>cu_PromptTokens = 5, cu_CompletionTokens = 7, cu_TotalTokens = 12\<rparr>\<rparr> = []
   \<and> msg_Role (r_Message (convertResponse (\<lambda>s. Inr (None :: unit option))
         \<lparr>cc_Choices = [], cc_Usage = \<lparr>cu_PromptTokens = 5, cu_CompletionTokens = 7, cu_TotalTokens = 12\<rparr>\<rparr>)) = ''model''
   \<and> msg_Content (r_Message (convertResponse (\<lambda>s. Inr (None :: unit option))
         \<lparr>cc_Choices = [], cc_Usage = \<lparr>cu_PromptTokens = 5, cu_CompletionTokens = 7, cu_TotalTokens = 12\<rparr>\<rparr>)) = []
   \<and> r_FinishReason (convertResponse (\<lambda>s. Inr (None :: unit option))
         \<lparr>cc_Choices = [], cc_Usage = \<lparr>cu_PromptTokens = 5, cu_CompletionTokens = 7, cu_TotalTokens = 12\<rparr>\<rparr>) = FinishReasonUnknown"
  using convertResponse_zero_choices
    [of "\<lparr>cc_Choices = [], cc_Usage = \<lparr>cu_PromptTokens = 5, cu_CompletionTokens = 7, cu_TotalTokens = 12\<rparr>\<rparr>"
        "\<lambda>s. Inr (None :: unit option)"]
  by (simp add: RoleModel_def)

text \<open>
  Claim C10. The counters of the wire response are copied into the response only when
  the prompt-token count is strictly positive. With a prompt-token count of zero or
  less the counters of the response are all zero, whatever the completion-token and
  total-token counts are: the usage record holds three zeros when the wire response has
  a choice, and the response carries no usage record when it has none.
\<close>

theorem convertResponse_usage:
  "(0 < cu_PromptTokens (cc_Usage resp) \<and> cc_Choices resp \<noteq> [] \<longrightarrow>
      r_Usage (convertResponse unmarshal resp) =
        Some \<lparr>gu_InputTokens = cu_PromptTokens (cc_Usage resp),
              gu_OutputTokens = cu_CompletionTokens (cc_Usage resp),
              gu_TotalTokens = cu_TotalTokens (cc_Usage resp)\<rparr>)
   \<and> (cu_PromptTokens (cc_Usage resp) \<le> 0 \<longrightarrow>
        r_Usage (convertResponse unmarshal resp) =
          (if cc_Choices resp = [] then None
           else Some \<lparr>gu_InputTokens = 0, gu_OutputTokens = 0, gu_TotalTokens = 0\<rparr>)
        \<and> usageCounters (r_Usage (convertResponse unmarshal resp)) = (0, 0, 0))"
  by (cases "cc_Choices resp") (simp_all add: convertResponse_def usageCounters_def)

theorem convertResponse_usage_witness:
  "(0::int) < 5
   \<and> r_Usage (convertResponse (\<lambda>s. Inr (None :: unit option))
        \<lparr>cc_Choices = [\<lparr>c_Message = \<lparr>m_Content = ''hi'', m_ToolCalls = []\<rparr>, c_FinishReason = ''stop''\<rparr>],
         cc_Usage = \<lparr>cu_PromptTokens = 5, cu_CompletionTokens = 7, cu_TotalTokens = 12\<rparr>\<rparr>)
      = Some \<lparr>gu_InputTokens = 5, gu_OutputTokens = 7, gu_TotalTokens = 12\<rparr>
   \<and> (0::int) \<le> 0
   \<and> r_Usage (convertResponse (\<lambda>s. Inr (None :: unit option))
        \<lparr>cc_Choices = [\<lparr>c_Message = \<lparr>m_Content = ''hi'', m_ToolCalls = []\<rparr>, c_FinishReason = ''stop''\<rparr>],
         cc_Usage = \<lparr>cu_PromptTokens = 0, cu_CompletionTokens = 7, cu_TotalTokens = 7\<rparr>\<rparr>)
      = Some \<lparr>gu_InputTokens = 0, gu_OutputTokens = 0, gu_TotalTokens = 0\<rparr>
   \<and> usageCounters (r_Usage (convertResponse (\<lambda>s. Inr (None :: unit option))
        \<lparr>cc_Choices = [\<lparr>c_Message = \<lparr>m_Content = ''hi'', m_ToolCalls = []\<rparr>, c_FinishReason = ''stop''\<rparr>],
         cc_Usage = \<lparr>cu_PromptTokens = 0, cu_CompletionTokens = 7, cu_TotalTokens = 7\<rparr>\<rparr>))
      = (0, 0, 0)"
  using
    convertResponse_usage
      [of "\<lparr>cc_Choices = [\<lparr>c_Message = \<lparr>m_Content = ''hi'', m_ToolCalls = []\<rparr>, c_FinishReason = ''stop''\<rparr>],
         cc_Usage = \<lparr>cu_PromptTokens = 5, cu_CompletionTokens = 7, cu_TotalTokens = 12\<rparr>\<rparr>"
          "\<lambda>s. Inr (None :: unit option)"]
    convertResponse_usage
      [of "\<lparr>cc_Choices = [\<lparr>c_Message = \<lparr>m_Content = ''hi'', m_ToolCalls = []\<rparr>, c_FinishReason = ''stop''\<rparr>],
         cc_Usage = \<lparr>cu_PromptTokens = 0, cu_CompletionTokens = 7, cu_TotalTokens = 7\<rparr>\<rparr>"
          "\<lambda>s. Inr (None :: unit option)"]
  by (simp add: usageCounters_def)

section \<open>Tool-argument decode failures\<close>

text \<open>
  The loop of the synchronous assembler distributes over the list of tool calls, so a
  call whose arguments do not decode contributes nothing and leaves the parts of the
  calls around it as they are.
\<close>

lemma convertResponseToolCalls_append:
  "convertResponseToolCalls unmarshal (xs @ ys) =
     convertResponseToolCalls unmarshal xs @ convertResponseToolCalls unmarshal ys"
  by (induction xs) (auto split: sum.splits)

lemma convertResponseToolCalls_drop:
  "unmarshal (fn_Arguments (tc_Function bad)) = Inl e \<Longrightarrow>
   convertResponseToolCalls unmarshal (pre @ bad # post) =
     convertResponseToolCalls unmarshal pre @ convertResponseToolCalls unmarshal post"
  by (simp add: convertResponseToolCalls_append)

text \<open>
  The streaming conversion fails as soon as the range reaches an accumulator that has a
  name and a non-empty argument buffer that does not decode; and it fails only then:
  an accumulator without a name is skipped before its buffer is looked at, and an empty
  buffer is not decoded.
\<close>

lemma convertToolCallsToParts_fails:
  "k \<in> set keys \<Longrightarrow> accs k = Some a \<Longrightarrow> acc_name a \<noteq> [] \<Longrightarrow> acc_arguments a \<noteq> [] \<Longrightarrow>
   unmarshal (acc_arguments a) = Inl e \<Longrightarrow>
   \<exists>err. convertToolCallsToParts unmarshal accs keys = Inl err"
proof (induction keys)
  case Nil
  then show ?case by simp
next
  case (Cons x keys)
  show ?case
  proof (cases "x = k")
    case True
    with Cons.prems show ?thesis by simp
  next
    case False
    with Cons.prems have "k \<in> set keys" by simp
    from Cons.IH [OF this Cons.prems(2-5)]
    obtain err where "convertToolCallsToParts unmarshal accs keys = Inl err" by blast
    then show ?thesis by (simp split: option.splits sum.splits)
  qed
qed

lemma convertToolCallsToParts_fails_only:
  "convertToolCallsToParts unmarshal accs keys = Inl err \<Longrightarrow>
   \<exists>k a e. k \<in> set keys \<and> accs k = Some a \<and> acc_name a \<noteq> [] \<and> acc_arguments a \<noteq> []
     \<and> unmarshal (acc_arguments a) = Inl e"
proof (induction keys)
  case Nil
  then show ?case by simp
next
  case (Cons x keys)
  then show ?case
    by (fastforce split: option.splits sum.splits if_splits)
qed


text \<open>
  Claim C1. Tool-argument decode failure is handled differently on the two paths.
  Synchronous path: a tool call of the first choice whose argument string does not
  decode is dropped, and the response still holds the text part and the tool-request
  parts of the calls before and after it. Streaming path: for every accumulated map and
  every order of the range over it, a decode failure of the argument buffer of an
  accumulator (one that has a name and a non-empty buffer: the ones the conversion
  decodes) makes \<open>convertToolCallsToParts\<close> return an error, and makes
  \<open>generateTextStream\<close> return an error and no response.
\<close>

theorem tool_argument_decode_failure:
  "(cc_Choices resp = choice # others
      \<and> m_ToolCalls (c_Message choice) = pre @ bad # post
      \<and> unmarshal (fn_Arguments (tc_Function bad)) = Inl e
    \<longrightarrow> msg_Content (r_Message (convertResponse unmarshal resp)) =
          (if m_Content (c_Message choice) \<noteq> []
           then [NewTextPart (m_Content (c_Message choice))] else [])
          @ convertResponseToolCalls unmarshal pre
          @ convertResponseToolCalls unmarshal post)
   \<and> (rangeOrder accs keys
      \<and> accs k = Some a \<and> acc_name a \<noteq> [] \<and> acc_arguments a \<noteq> []
      \<and> unmarshal (acc_arguments a) = Inl e
    \<longrightarrow> (\<exists>err. convertToolCallsToParts unmarshal accs keys = Inl err)
        \<and> (streamLoop cb chunks (streamStart sinkStart) = Inr st \<and> st_toolCallsMap st = accs
             \<longrightarrow> (\<exists>err. generateTextStream unmarshal keys cb chunks streamErr sinkStart = Inl err)))"
proof (intro conjI impI)
  assume h: "cc_Choices resp = choice # others
      \<and> m_ToolCalls (c_Message choice) = pre @ bad # post
      \<and> unmarshal (fn_Arguments (tc_Function bad)) = Inl e"
  then show "msg_Content (r_Message (convertResponse unmarshal resp)) =
          (if m_Content (c_Message choice) \<noteq> []
           then [NewTextPart (m_Content (c_Message choice))] else [])
          @ convertResponseToolCalls unmarshal pre
          @ convertResponseToolCalls unmarshal post"
    by (simp add: convertResponse_def convertResponseToolCalls_drop Let_def)
next
  assume h: "rangeOrder accs keys
      \<and> accs k = Some a \<and> acc_name a \<noteq> [] \<and> acc_arguments a \<noteq> []
      \<and> unmarshal (acc_arguments a) = Inl e"
  then have "k \<in> set keys" by (auto simp: rangeOrder_def)
  with h show fails: "\<exists>err. convertToolCallsToParts unmarshal accs keys = Inl err"
    using convertToolCallsToParts_fails by blast
  assume "streamLoop cb chunks (streamStart sinkStart) = Inr st \<and> st_toolCallsMap st = accs"
  with fails show "\<exists>err. generateTextStream unmarshal keys cb chunks streamErr sinkStart = Inl err"
    by (auto simp: generateTextStream_def split: option.splits)
qed

theorem tool_argument_decode_failure_witness:
  "(cc_Choices
      \<lparr>cc_Choices =
         [\<lparr>c_Message =
             \<lparr>m_Content = ''hi'',
              m_ToolCalls =
                [\<lparr>tc_ID = ''c1'', tc_Function = \<lparr>fn_Name = ''foo'', fn_Arguments = ''{}''\<rparr>\<rparr>,
                 \<lparr>tc_ID = ''c2'', tc_Function = \<lparr>fn_Name = ''bar'', fn_Arguments = ''{oops''\<rparr>\<rparr>]\<rparr>,
            c_FinishReason = ''tool_calls''\<rparr>],
       cc_Usage = \<lparr>cu_PromptTokens = 3, cu_CompletionTokens = 4, cu_TotalTokens = 7\<rparr>\<rparr> \<noteq> []
    \<and> (\<lambda>s. if s = ''{}'' then Inr (Some ()) else Inl (ExternalError ''invalid character'')) ''{oops''
        = Inl (ExternalError ''invalid character'')
    \<and> msg_Content (r_Message (convertResponse
          (\<lambda>s. if s = ''{}'' then Inr (Some ()) else Inl (ExternalError ''invalid character''))
          \<lparr>cc_Choices =
             [\<lparr>c_Message =
                 \<lparr>m_Content = ''hi'',
                  m_ToolCalls =
                    [\<lparr>tc_ID = ''c1'', tc_Function = \<lparr>fn_Name = ''foo'', fn_Arguments = ''{}''\<rparr>\<rparr>,
                     \<lparr>tc_ID = ''c2'', tc_Function = \<lparr>fn_Name = ''bar'', fn_Arguments = ''{oops''\<rparr>\<rparr>]\<rparr>,
                c_FinishReason = ''tool_calls''\<rparr>],
           cc_Usage = \<lparr>cu_PromptTokens = 3, cu_CompletionTokens = 4, cu_TotalTokens = 7\<rparr>\<rparr>))
        = [NewTextPart ''hi'', NewToolRequestPart \<lparr>tr_Name = ''foo'', tr_Input = Some ()\<rparr>])
   \<and> (rangeOrder [0 \<mapsto> \<lparr>acc_id = ''c1'', acc_name = ''foo'', acc_arguments = ''{oops''\<rparr>] [0]
    \<and> streamLoop None
         [\<lparr>chunk_Choices =
             [\<lparr>chc_Delta =
                 \<lparr>d_Content = [],
                  d_ToolCalls =
                    [\<lparr>dtc_Index = 0, dtc_ID = ''c1'',
                      dtc_Function = \<lparr>fn_Name = ''foo'', fn_Arguments = ''{oops''\<rparr>\<rparr>]\<rparr>\<rparr>]\<rparr>]
         (streamStart ())
        = Inr \<lparr>st_fullText = [],
               st_toolCallsMap = [0 \<mapsto> \<lparr>acc_id = ''c1'', acc_name = ''foo'', acc_arguments = ''{oops''\<rparr>],
               st_sink = ()\<rparr>
    \<and> (\<exists>err. convertToolCallsToParts
          (\<lambda>s. if s = ''{}'' then Inr (Some ()) else Inl (ExternalError ''invalid character''))
          [0 \<mapsto> \<lparr>acc_id = ''c1'', acc_name = ''foo'', acc_arguments = ''{oops''\<rparr>] [0] = Inl err)
    \<and> (\<exists>err. generateTextStream
          (\<lambda>s. if s = ''{}'' then Inr (Some ()) else Inl (ExternalError ''invalid character''))
          [0] None
          [\<lparr>chunk_Choices =
             [\<lparr>chc_Delta =
                 \<lparr>d_Content = [],
                  d_ToolCalls =
                    [\<lparr>dtc_Index = 0, dtc_ID = ''c1'',
                      dtc_Function = \<lparr>fn_Name = ''foo'', fn_Arguments = ''{oops''\<rparr>\<rparr>]\<rparr>\<rparr>]\<rparr>]
          None () = Inl err))"
proof -
  let ?um = "\<lambda>s. if s = ''{}'' then Inr (Some ()) else Inl (ExternalError ''invalid character'')"
  let ?good = "\<lparr>tc_ID = ''c1'', tc_Function = \<lparr>fn_Name = ''foo'', fn_Arguments = ''{}''\<rparr>\<rparr>"
  let ?bad = "\<lparr>tc_ID = ''c2'', tc_Function = \<lparr>fn_Name = ''bar'', fn_Arguments = ''{oops''\<rparr>\<rparr>"
  let ?choice = "\<lparr>c_Message = \<lparr>m_Content = ''hi'', m_ToolCalls = [?good, ?bad]\<rparr>,
            c_FinishReason = ''tool_calls''\<rparr>"
  let ?resp = "\<lparr>cc_Choices = [?choice],
       cc_Usage = \<lparr>cu_PromptTokens = 3, cu_CompletionTokens = 4, cu_TotalTokens = 7\<rparr>\<rparr>"
  let ?a = "\<lparr>acc_id = ''c1'', acc_name = ''foo'', acc_arguments = ''{oops''\<rparr>"
  let ?chunks = "[\<lparr>chunk_Choices =
             [\<lparr>chc_Delta =
                 \<lparr>d_Content = [],
                  d_ToolCalls =
                    [\<lparr>dtc_Index = 0, dtc_ID = ''c1'',
                      dtc_Function = \<lparr>fn_Name = ''foo'', fn_Arguments = ''{oops''\<rparr>\<rparr>]\<rparr>\<rparr>]\<rparr>]"
  let ?st = "\<lparr>st_fullText = [], st_toolCallsMap = [0 \<mapsto> ?a], st_sink = ()\<rparr>"
  have loop: "streamLoop None ?chunks (streamStart ()) = Inr ?st"
    by (simp add: processChunk_def handleContent_def accumulateToolCallDelta_def streamStart_def)
  have order: "rangeOrder [0 \<mapsto> ?a] [0]"
    by (simp add: rangeOrder_def)
  note inst = tool_argument_decode_failure
    [where resp = ?resp and choice = ?choice and others = "[]" and pre = "[?good]"
       and bad = ?bad and post = "[]" and unmarshal = ?um
       and e = "ExternalError ''invalid character''"
       and accs = "[0 \<mapsto> ?a]" and keys = "[0]" and k = 0 and a = ?a
       and cb = None and chunks = ?chunks and sinkStart = "()" and st = ?st and streamErr = None]
  from inst show ?thesis
    by (simp add: loop order del: streamLoop.simps)
qed

section \<open>The loop over the stream\<close>

lemma streamLoop_append:
  "streamLoop cb (xs @ ys) st =
     (case streamLoop cb xs st of Inl stop \<Rightarrow> Inl stop | Inr st1 \<Rightarrow> streamLoop cb ys st1)"
  by (induction xs arbitrary: st) (auto split: sum.splits)

text \<open>
  Claim C9. When the stream ends without a sink error, without a transport error and
  without an argument-decode error, the streaming call returns a response; and every
  response it returns has finish reason stop and no usage record (the field is left
  nil), so that its input, output and total token counters read zero.
\<close>

theorem generateTextStream_success:
  "(streamLoop cb chunks (streamStart sinkStart) = Inr st \<and> streamErr = None
      \<and> convertToolCallsToParts unmarshal (st_toolCallsMap st) keys = Inr toolParts
    \<longrightarrow> (\<exists>resp. generateTextStream unmarshal keys cb chunks streamErr sinkStart = Inr resp))
   \<and> (generateTextStream unmarshal keys cb chunks streamErr sinkStart = Inr resp
    \<longrightarrow> r_FinishReason resp = FinishReasonStop
        \<and> r_Usage resp = None
        \<and> usageCounters (r_Usage resp) = (0, 0, 0))"
  by (auto simp: generateTextStream_def usageCounters_def Let_def
           split: sum.splits option.splits prod.splits)

theorem generateTextStream_success_witness:
  "streamLoop (Some (\<lambda>n (chunk :: unit ModelResponseChunk). (None, Suc n)))
     [\<lparr>chunk_Choices = [\<lparr>chc_Delta = \<lparr>d_Content = ''He'', d_ToolCalls = []\<rparr>\<rparr>]\<rparr>,
      \<lparr>chunk_Choices = [\<lparr>chc_Delta = \<lparr>d_Content = ''llo'', d_ToolCalls = []\<rparr>\<rparr>]\<rparr>]
     (streamStart (0::nat))
     = Inr \<lparr>st_fullText = ''Hello'', st_toolCallsMap = Map.empty, st_sink = 2\<rparr>
   \<and> generateTextStream (\<lambda>s. Inr (None :: unit option)) [] (Some (\<lambda>n (chunk :: unit ModelResponseChunk). (None, Suc n)))
     [\<lparr>chunk_Choices = [\<lparr>chc_Delta = \<lparr>d_Content = ''He'', d_ToolCalls = []\<rparr>\<rparr>]\<rparr>,
      \<lparr>chunk_Choices = [\<lparr>chc_Delta = \<lparr>d_Content = ''llo'', d_ToolCalls = []\<rparr>\<rparr>]\<rparr>]
     None (0::nat)
     = Inr \<lparr>r_Message = \<lparr>msg_Role = ''model'', msg_Content = [NewTextPart ''Hello'']\<rparr>,
            r_FinishReason = FinishReasonStop, r_Usage = None\<rparr>
   \<and> r_FinishReason
        \<lparr>r_Message = \<lparr>msg_Role = ''model'', msg_Content = [NewTextPart ''Hello'' :: unit Part]\<rparr>,
            r_FinishReason = FinishReasonStop, r_Usage = None\<rparr> = FinishReasonStop
   \<and> usageCounters (r_Usage
        \<lparr>r_Message = \<lparr>msg_Role = ''model'', msg_Content = [NewTextPart ''Hello'' :: unit Part]\<rparr>,
            r_FinishReason = FinishReasonStop, r_Usage = None\<rparr>) = (0, 0, 0)"
proof -
  let ?cb = "Some (\<lambda>(n::nat) (chunk :: unit ModelResponseChunk). (None :: error option, Suc n))"
  let ?chunks = "[\<lparr>chunk_Choices = [\<lparr>chc_Delta = \<lparr>d_Content = ''He'', d_ToolCalls = []\<rparr>\<rparr>]\<rparr>,
      \<lparr>chunk_Choices = [\<lparr>chc_Delta = \<lparr>d_Content = ''llo'', d_ToolCalls = []\<rparr>\<rparr>]\<rparr>]"
  let ?resp = "\<lparr>r_Message = \<lparr>msg_Role = ''model'', msg_Content = [NewTextPart ''Hello'' :: unit Part]\<rparr>,
            r_FinishReason = FinishReasonStop, r_Usage = None\<rparr>"
  have loop: "streamLoop ?cb ?chunks (streamStart (0::nat))
     = Inr \<lparr>st_fullText = ''Hello'', st_toolCallsMap = Map.empty, st_sink = 2\<rparr>"
    by (simp add: processChunk_def handleContent_def streamStart_def)
  have run: "generateTextStream (\<lambda>s. Inr (None :: unit option)) [] ?cb ?chunks None (0::nat) = Inr ?resp"
    by (simp add: generateTextStream_def loop RoleModel_def del: streamLoop.simps)
  from generateTextStream_success
    [where unmarshal = "\<lambda>s. Inr (None :: unit option)" and keys = "[]" and cb = ?cb
       and chunks = ?chunks and streamErr = None and sinkStart = "0::nat" and resp = ?resp]
    run
  have "r_FinishReason ?resp = FinishReasonStop \<and> usageCounters (r_Usage ?resp) = (0, 0, 0)"
    by blast
  with loop run show ?thesis by simp
qed


text \<open>
  Claim C3. If the sink returns an error on the text of some delta, the deltas before
  it having been processed, the loop returns at once with that error wrapped and no
  response. The state at the return holds the text up to and including the failing
  delta's, the accumulators as they were before the failing delta, and the sink as the
  failing invocation left it: neither the tool-call fragments of the failing delta nor
  anything of the deltas that remain is processed, whatever they are and whatever the
  transport would have reported.
\<close>

theorem sink_failure_aborts:
  assumes "streamLoop (Some cb) before (streamStart sinkStart) = Inr st"
    and "chunk_Choices failing = choice # others"
    and "d_Content (chc_Delta choice) \<noteq> []"
    and "cb (st_sink st) \<lparr>mrc_Content = [NewTextPart (d_Content (chc_Delta choice))]\<rparr>
           = (Some err, sinkAfter)"
  shows "streamLoop (Some cb) (before @ failing # remaining) (streamStart sinkStart)
           = Inl (StreamingCallbackError err,
                  st\<lparr>st_fullText := st_fullText st @ d_Content (chc_Delta choice),
                     st_sink := sinkAfter\<rparr>)
         \<and> generateTextStream unmarshal keys (Some cb) (before @ failing # remaining)
              streamErr sinkStart
           = Inl (StreamingCallbackError err)"
proof -
  from assms(2-4) have
    "processChunk (Some cb) failing st
       = Inl (StreamingCallbackError err,
              st\<lparr>st_fullText := st_fullText st @ d_Content (chc_Delta choice),
                 st_sink := sinkAfter\<rparr>)"
    by (simp add: processChunk_def handleContent_def)
  with assms(1) have
    "streamLoop (Some cb) (before @ failing # remaining) (streamStart sinkStart)
       = Inl (StreamingCallbackError err,
              st\<lparr>st_fullText := st_fullText st @ d_Content (chc_Delta choice),
                 st_sink := sinkAfter\<rparr>)"
    by (simp add: streamLoop_append)
  then show ?thesis by (simp add: generateTextStream_def)
qed

theorem sink_failure_aborts_witness:
  "streamLoop
     (Some (\<lambda>n (chunk :: unit ModelResponseChunk).
              (if n = Suc 0 then Some (ExternalError ''sink closed'') else None, Suc n)))
     ([\<lparr>chunk_Choices = [\<lparr>chc_Delta = \<lparr>d_Content = ''He'', d_ToolCalls = []\<rparr>\<rparr>]\<rparr>]
      @ \<lparr>chunk_Choices =
           [\<lparr>chc_Delta =
               \<lparr>d_Content = ''llo'',
                d_ToolCalls =
                  [\<lparr>dtc_Index = 0, dtc_ID = ''c1'',
                    dtc_Function = \<lparr>fn_Name = ''foo'', fn_Arguments = ''{}''\<rparr>\<rparr>]\<rparr>\<rparr>]\<rparr>
      # [\<lparr>chunk_Choices = [\<lparr>chc_Delta = \<lparr>d_Content = ''!'', d_ToolCalls = []\<rparr>\<rparr>]\<rparr>])
     (streamStart (0::nat))
   = Inl (StreamingCallbackError (ExternalError ''sink closed''),
          \<lparr>st_fullText = ''Hello'', st_toolCallsMap = Map.empty, st_sink = Suc (Suc 0)\<rparr>)
   \<and> generateTextStream (\<lambda>s. Inr (None :: unit option)) []
     (Some (\<lambda>n (chunk :: unit ModelResponseChunk).
              (if n = Suc 0 then Some (ExternalError ''sink closed'') else None, Suc n)))
     ([\<lparr>chunk_Choices = [\<lparr>chc_Delta = \<lparr>d_Content = ''He'', d_ToolCalls = []\<rparr>\<rparr>]\<rparr>]
      @ \<lparr>chunk_Choices =
           [\<lparr>chc_Delta =
               \<lparr>d_Content = ''llo'',
                d_ToolCalls =
                  [\<lparr>dtc_Index = 0, dtc_ID = ''c1'',
                    dtc_Function = \<lparr>fn_Name = ''foo'', fn_Arguments = ''{}''\<rparr>\<rparr>]\<rparr>\<rparr>]\<rparr>
      # [\<lparr>chunk_Choices = [\<lparr>chc_Delta = \<lparr>d_Content = ''!'', d_ToolCalls = []\<rparr>\<rparr>]\<rparr>])
     None (0::nat)
   = Inl (StreamingCallbackError (ExternalError ''sink closed''))"
proof -
  let ?cb = "\<lambda>(n::nat) (chunk :: unit ModelResponseChunk).
              (if n = Suc 0 then Some (ExternalError ''sink closed'') else None, Suc n)"
  let ?before = "[\<lparr>chunk_Choices = [\<lparr>chc_Delta = \<lparr>d_Content = ''He'', d_ToolCalls = []\<rparr>\<rparr>]\<rparr>]"
  let ?choice = "\<lparr>chc_Delta =
               \<lparr>d_Content = ''llo'',
                d_ToolCalls =
                  [\<lparr>dtc_Index = 0, dtc_ID = ''c1'',
                    dtc_Function = \<lparr>fn_Name = ''foo'', fn_Arguments = ''{}''\<rparr>\<rparr>]\<rparr>\<rparr>"
  let ?failing = "\<lparr>chunk_Choices = [?choice]\<rparr>"
  let ?st = "\<lparr>st_fullText = ''He'', st_toolCallsMap = Map.empty, st_sink = Suc 0\<rparr>"
  have pre_ok: "streamLoop (Some ?cb) ?before (streamStart (0::nat)) = Inr ?st"
    by (simp add: processChunk_def handleContent_def streamStart_def)
  have choices: "chunk_Choices ?failing = ?choice # []"
    by simp
  have nonempty: "d_Content (chc_Delta ?choice) \<noteq> []"
    by simp
  have cb_fails: "?cb (st_sink ?st) \<lparr>mrc_Content = [NewTextPart (d_Content (chc_Delta ?choice))]\<rparr>
           = (Some (ExternalError ''sink closed''), Suc (Suc 0))"
    by simp
  from sink_failure_aborts [OF pre_ok choices nonempty cb_fails]
  show ?thesis by simp
qed

section \<open>Accumulation by index\<close>

text \<open>
  The argument buffer at an index after a list of fragments: what was there, followed
  by the arguments of the fragments at that index, in order. Fragments at other indices
  do not touch it.
\<close>

lemma accumulateToolCallDelta_arguments:
  "map_option acc_arguments (accumulateToolCallDelta accs f i) =
     (if dtc_Index f = i
      then Some ((case accs i of None \<Rightarrow> [] | Some a \<Rightarrow> acc_arguments a)
                 @ fn_Arguments (dtc_Function f))
      else map_option acc_arguments (accs i))"
  by (simp add: accumulateToolCallDelta_def Let_def split: option.splits)

lemma foldl_accumulate_arguments:
  "map_option acc_arguments (foldl accumulateToolCallDelta accs frags i) =
     (if fragmentsAt i frags = [] then map_option acc_arguments (accs i)
      else Some ((case accs i of None \<Rightarrow> [] | Some a \<Rightarrow> acc_arguments a)
                 @ concat (map (\<lambda>f. fn_Arguments (dtc_Function f)) (fragmentsAt i frags))))"
proof (induction frags arbitrary: accs)
  case Nil
  then show ?case by (simp add: fragmentsAt_def)
next
  case (Cons f frags)
  have step: "map_option acc_arguments (accumulateToolCallDelta accs f i) =
     (if dtc_Index f = i
      then Some ((case accs i of None \<Rightarrow> [] | Some a \<Rightarrow> acc_arguments a)
                 @ fn_Arguments (dtc_Function f))
      else map_option acc_arguments (accs i))"
    by (rule accumulateToolCallDelta_arguments)
  show ?case
  proof (cases "dtc_Index f = i")
    case True
    with step obtain a where a: "accumulateToolCallDelta accs f i = Some a"
      and args: "acc_arguments a = (case accs i of None \<Rightarrow> [] | Some a \<Rightarrow> acc_arguments a)
                 @ fn_Arguments (dtc_Function f)"
      by auto
    from True a args show ?thesis
      by (simp add: Cons.IH fragmentsAt_def)
  next
    case False
    with step have same: "map_option acc_arguments (accumulateToolCallDelta accs f i)
        = map_option acc_arguments (accs i)"
      by simp
    then have "(case accumulateToolCallDelta accs f i of None \<Rightarrow> [] | Some a \<Rightarrow> acc_arguments a)
        = (case accs i of None \<Rightarrow> [] | Some a \<Rightarrow> acc_arguments a)"
      by (auto split: option.splits)
    with False same show ?thesis
      by (simp add: Cons.IH fragmentsAt_def)
  qed
qed

lemma handleContent_toolCallsMap:
  "handleContent cb delta st = Inr st1 \<Longrightarrow> st_toolCallsMap st1 = st_toolCallsMap st"
  by (auto simp: handleContent_def Let_def split: if_splits option.splits prod.splits)

lemma processChunk_toolCallsMap:
  "processChunk cb chunk st = Inr st1 \<Longrightarrow>
   st_toolCallsMap st1 = foldl accumulateToolCallDelta (st_toolCallsMap st) (deltaToolCalls chunk)"
  by (auto simp: processChunk_def deltaToolCalls_def handleContent_toolCallsMap
           split: list.splits sum.splits)

lemma streamLoop_toolCallsMap:
  "streamLoop cb chunks st = Inr st1 \<Longrightarrow>
   st_toolCallsMap st1 = foldl accumulateToolCallDelta (st_toolCallsMap st) (streamToolCalls chunks)"
proof (induction chunks arbitrary: st)
  case Nil
  then show ?case by (simp add: streamToolCalls_def)
next
  case (Cons chunk chunks)
  from Cons.prems obtain st2 where one: "processChunk cb chunk st = Inr st2"
    and rest: "streamLoop cb chunks st2 = Inr st1"
    by (auto split: sum.splits)
  from Cons.IH [OF rest] processChunk_toolCallsMap [OF one]
  show ?case by (simp add: streamToolCalls_def)
qed

lemma two_keys:
  assumes "distinct keys" and "set keys = {a, b}" and "a \<noteq> b"
  shows "keys = [a, b] \<or> keys = [b, a]"
proof -
  from assms have "length keys = 2"
    using distinct_card [of keys] by simp
  then obtain x y where "keys = [x, y]"
    by (cases keys; cases "tl keys") auto
  with assms show ?thesis by auto
qed

lemma interleavedDeltas_loop:
  \<open>streamLoop cb interleavedDeltas (streamStart sinkStart) =
     Inr \<lparr>st_fullText = [],
          st_toolCallsMap =
            [0 \<mapsto> \<lparr>acc_id = ''call_0'', acc_name = ''foo'', acc_arguments = ''{"a":1}''\<rparr>,
             1 \<mapsto> \<lparr>acc_id = ''call_1'', acc_name = ''bar'', acc_arguments = ''{}''\<rparr>],
          st_sink = sinkStart\<rparr>\<close>
  by (simp add: interleavedDeltas_def processChunk_def handleContent_def
        accumulateToolCallDelta_def streamStart_def fun_upd_twist)


text \<open>
  Claim C2. Tool-call fragments are accumulated per integer index: after any delta
  sequence that the loop runs through, the argument buffer at each index is the
  concatenation, in arrival order, of the arguments of the fragments at that index and
  of no other, however the indices interleave. On the spec's example (index 0 with foo
  and the first half of its arguments, index 1 with bar, index 0 with the second half)
  the call assembles exactly two tool-request parts, foo with the decoded first
  argument string and bar with the decoded empty object, in the order the range over
  the map takes. The decoder is a parameter; the two hypotheses on it say what it
  returns on the two assembled strings.
\<close>

theorem tool_call_fragments_by_index:
  \<open>(streamLoop cb chunks (streamStart sinkStart) = Inr st
    \<longrightarrow> map_option acc_arguments (st_toolCallsMap st i) =
          (if fragmentsAt i (streamToolCalls chunks) = [] then None
           else Some (concat (map (\<lambda>f. fn_Arguments (dtc_Function f))
                                  (fragmentsAt i (streamToolCalls chunks))))))
   \<and> (unmarshal ''{"a":1}'' = Inr inputA \<and> unmarshal ''{}'' = Inr inputEmpty
      \<and> distinct keys \<and> set keys = {0, 1}
    \<longrightarrow> (\<exists>final toolParts.
          streamLoop cb interleavedDeltas (streamStart sinkStart) = Inr final
          \<and> rangeOrder (st_toolCallsMap final) keys
          \<and> generateTextStream unmarshal keys cb interleavedDeltas None sinkStart =
              Inr \<lparr>r_Message = \<lparr>msg_Role = RoleModel, msg_Content = toolParts\<rparr>,
                   r_FinishReason = FinishReasonStop, r_Usage = None\<rparr>
          \<and> (toolParts =
                [NewToolRequestPart \<lparr>tr_Name = ''foo'', tr_Input = inputA\<rparr>,
                 NewToolRequestPart \<lparr>tr_Name = ''bar'', tr_Input = inputEmpty\<rparr>]
              \<or> toolParts =
                [NewToolRequestPart \<lparr>tr_Name = ''bar'', tr_Input = inputEmpty\<rparr>,
                 NewToolRequestPart \<lparr>tr_Name = ''foo'', tr_Input = inputA\<rparr>])))\<close>
proof (intro conjI impI)
  assume "streamLoop cb chunks (streamStart sinkStart) = Inr st"
  from streamLoop_toolCallsMap [OF this]
  show "map_option acc_arguments (st_toolCallsMap st i) =
          (if fragmentsAt i (streamToolCalls chunks) = [] then None
           else Some (concat (map (\<lambda>f. fn_Arguments (dtc_Function f))
                                  (fragmentsAt i (streamToolCalls chunks)))))"
    by (simp add: foldl_accumulate_arguments streamStart_def)
next
  let ?accs = \<open>[0 \<mapsto> \<lparr>acc_id = ''call_0'', acc_name = ''foo'', acc_arguments = ''{"a":1}''\<rparr>,
             1 \<mapsto> \<lparr>acc_id = ''call_1'', acc_name = ''bar'', acc_arguments = ''{}''\<rparr>]\<close>
  let ?final = "\<lparr>st_fullText = [], st_toolCallsMap = ?accs, st_sink = sinkStart\<rparr>"
  assume h: \<open>unmarshal ''{"a":1}'' = Inr inputA \<and> unmarshal ''{}'' = Inr inputEmpty
      \<and> distinct keys \<and> set keys = {0, 1}\<close>
  have loop: "streamLoop cb interleavedDeltas (streamStart sinkStart) = Inr ?final"
    by (rule interleavedDeltas_loop)
  from h have order: "rangeOrder (st_toolCallsMap ?final) keys"
    by (auto simp: rangeOrder_def)
  from h have "keys = [0, 1] \<or> keys = [1, 0]"
    using two_keys [of keys 0 1] by simp
  then show "\<exists>final toolParts.
          streamLoop cb interleavedDeltas (streamStart sinkStart) = Inr final
          \<and> rangeOrder (st_toolCallsMap final) keys
          \<and> generateTextStream unmarshal keys cb interleavedDeltas None sinkStart =
              Inr \<lparr>r_Message = \<lparr>msg_Role = RoleModel, msg_Content = toolParts\<rparr>,
                   r_FinishReason = FinishReasonStop, r_Usage = None\<rparr>
          \<and> (toolParts =
                [NewToolRequestPart \<lparr>tr_Name = ''foo'', tr_Input = inputA\<rparr>,
                 NewToolRequestPart \<lparr>tr_Name = ''bar'', tr_Input = inputEmpty\<rparr>]
              \<or> toolParts =
                [NewToolRequestPart \<lparr>tr_Name = ''bar'', tr_Input = inputEmpty\<rparr>,
                 NewToolRequestPart \<lparr>tr_Name = ''foo'', tr_Input = inputA\<rparr>])"
  proof
    assume keys: "keys = [0, 1]"
    with h have "generateTextStream unmarshal keys cb interleavedDeltas None sinkStart =
              Inr \<lparr>r_Message = \<lparr>msg_Role = RoleModel, msg_Content =
                [NewToolRequestPart \<lparr>tr_Name = ''foo'', tr_Input = inputA\<rparr>,
                 NewToolRequestPart \<lparr>tr_Name = ''bar'', tr_Input = inputEmpty\<rparr>]\<rparr>,
                   r_FinishReason = FinishReasonStop, r_Usage = None\<rparr>"
      by (simp add: generateTextStream_def loop del: streamLoop.simps)
    with loop order show ?thesis by blast
  next
    assume keys: "keys = [1, 0]"
    with h have "generateTextStream unmarshal keys cb interleavedDeltas None sinkStart =
              Inr \<lparr>r_Message = \<lparr>msg_Role = RoleModel, msg_Content =
                [NewToolRequestPart \<lparr>tr_Name = ''bar'', tr_Input = inputEmpty\<rparr>,
                 NewToolRequestPart \<lparr>tr_Name = ''foo'', tr_Input = inputA\<rparr>]\<rparr>,
                   r_FinishReason = FinishReasonStop, r_Usage = None\<rparr>"
      by (simp add: generateTextStream_def loop del: streamLoop.simps)
    with loop order show ?thesis by blast
  qed
qed

theorem tool_call_fragments_by_index_witness:
  \<open>streamLoop None interleavedDeltas (streamStart ()) =
     Inr \<lparr>st_fullText = [],
          st_toolCallsMap =
            [0 \<mapsto> \<lparr>acc_id = ''call_0'', acc_name = ''foo'', acc_arguments = ''{"a":1}''\<rparr>,
             1 \<mapsto> \<lparr>acc_id = ''call_1'', acc_name = ''bar'', acc_arguments = ''{}''\<rparr>],
          st_sink = ()\<rparr>
   \<and> map_option acc_arguments
        ([0 \<mapsto> \<lparr>acc_id = ''call_0'', acc_name = ''foo'', acc_arguments = ''{"a":1}''\<rparr>,
          1 \<mapsto> \<lparr>acc_id = ''call_1'', acc_name = ''bar'', acc_arguments = ''{}''\<rparr>] (0::int))
      = Some (concat (map (\<lambda>f. fn_Arguments (dtc_Function f))
                          (fragmentsAt 0 (streamToolCalls interleavedDeltas))))
   \<and> (\<lambda>s. if s = ''{"a":1}'' then Inr (Some [(''a'', 1::int)])
           else if s = ''{}'' then Inr (Some [])
           else Inl (ExternalError ''invalid character'')) ''{"a":1}'' = Inr (Some [(''a'', 1)])
   \<and> (\<lambda>s. if s = ''{"a":1}'' then Inr (Some [(''a'', 1::int)])
           else if s = ''{}'' then Inr (Some [])
           else Inl (ExternalError ''invalid character'')) ''{}'' = Inr (Some [])
   \<and> distinct [1, 0 :: int] \<and> set [1, 0 :: int] = {0, 1}
   \<and> generateTextStream
        (\<lambda>s. if s = ''{"a":1}'' then Inr (Some [(''a'', 1::int)])
             else if s = ''{}'' then Inr (Some [])
             else Inl (ExternalError ''invalid character''))
        [1, 0] None interleavedDeltas None ()
      = Inr \<lparr>r_Message =
               \<lparr>msg_Role = ''model'',
                msg_Content =
                  [NewToolRequestPart \<lparr>tr_Name = ''bar'', tr_Input = Some []\<rparr>,
                   NewToolRequestPart \<lparr>tr_Name = ''foo'', tr_Input = Some [(''a'', 1)]\<rparr>]\<rparr>,
             r_FinishReason = FinishReasonStop, r_Usage = None\<rparr>\<close>
proof -
  let ?um = \<open>\<lambda>s. if s = ''{"a":1}'' then Inr (Some [(''a'', 1::int)])
           else if s = ''{}'' then Inr (Some [])
           else Inl (ExternalError ''invalid character'')\<close>
  let ?accs = \<open>[(0::int) \<mapsto> \<lparr>acc_id = ''call_0'', acc_name = ''foo'', acc_arguments = ''{"a":1}''\<rparr>,
             1 \<mapsto> \<lparr>acc_id = ''call_1'', acc_name = ''bar'', acc_arguments = ''{}''\<rparr>]\<close>
  let ?final = "\<lparr>st_fullText = [], st_toolCallsMap = ?accs, st_sink = ()\<rparr>"
  note inst = tool_call_fragments_by_index
    [where cb = "None :: (((string \<times> int) list, unit) streamCallback) option"
       and chunks = interleavedDeltas and sinkStart = "()" and st = ?final and i = 0
       and unmarshal = ?um and inputA = "Some [(''a'', 1)]" and inputEmpty = "Some []"
       and keys = "[1, 0]"]
  have loop: "streamLoop (None :: (((string \<times> int) list, unit) streamCallback) option)
      interleavedDeltas (streamStart ()) = Inr ?final"
    by (rule interleavedDeltas_loop)
  have um_a: \<open>?um ''{"a":1}'' = Inr (Some [(''a'', 1)])\<close>
    by simp
  have um_empty: "?um ''{}'' = Inr (Some [])"
    by simp
  have args: "map_option acc_arguments (st_toolCallsMap ?final 0) =
          (if fragmentsAt 0 (streamToolCalls interleavedDeltas) = [] then None
           else Some (concat (map (\<lambda>f. fn_Arguments (dtc_Function f))
                                  (fragmentsAt 0 (streamToolCalls interleavedDeltas)))))"
    by (rule inst [THEN conjunct1, THEN mp, OF loop])
  have frags: "fragmentsAt 0 (streamToolCalls interleavedDeltas) \<noteq> []"
    by (simp add: fragmentsAt_def streamToolCalls_def deltaToolCalls_def interleavedDeltas_def)
  have at_zero: "map_option acc_arguments (?accs 0)
      = Some (concat (map (\<lambda>f. fn_Arguments (dtc_Function f))
                          (fragmentsAt 0 (streamToolCalls interleavedDeltas))))"
    using args frags by (simp only: streamState.select_convs if_False)
  have run: "generateTextStream ?um [1, 0]
        (None :: (((string \<times> int) list, unit) streamCallback) option) interleavedDeltas None ()
      = Inr \<lparr>r_Message =
               \<lparr>msg_Role = ''model'',
                msg_Content =
                  [NewToolRequestPart \<lparr>tr_Name = ''bar'', tr_Input = Some []\<rparr>,
                   NewToolRequestPart \<lparr>tr_Name = ''foo'', tr_Input = Some [(''a'', 1)]\<rparr>]\<rparr>,
             r_FinishReason = FinishReasonStop, r_Usage = None\<rparr>"
    by (simp add: generateTextStream_def loop RoleModel_def del: streamLoop.simps)
  show ?thesis
    by (intro conjI; (rule interleavedDeltas_loop at_zero um_a um_empty run | simp add: insert_commute))
qed


section \<open>The stored name\<close>

lemma accumulateToolCallDelta_name:
  "map_option acc_name (accumulateToolCallDelta accs f i) =
     (if dtc_Index f = i
      then Some (if fn_Name (dtc_Function f) \<noteq> [] then fn_Name (dtc_Function f)
                 else (case accs i of None \<Rightarrow> [] | Some a \<Rightarrow> acc_name a))
      else map_option acc_name (accs i))"
  by (simp add: accumulateToolCallDelta_def Let_def split: option.splits)

lemma foldl_accumulate_name:
  "accs i = Some a \<Longrightarrow>
   map_option acc_name (foldl accumulateToolCallDelta accs frags i) =
     Some (if namesAt i frags = [] then acc_name a else last (namesAt i frags))"
proof (induction frags rule: rev_induct)
  case Nil
  then show ?case by (simp add: namesAt_def fragmentsAt_def)
next
  case (snoc f frags)
  from snoc.IH [OF snoc.prems] obtain b where
    b: "foldl accumulateToolCallDelta accs frags i = Some b"
    and name: "acc_name b = (if namesAt i frags = [] then acc_name a else last (namesAt i frags))"
    by auto
  have "map_option acc_name (foldl accumulateToolCallDelta accs (frags @ [f]) i) =
      map_option acc_name (accumulateToolCallDelta (foldl accumulateToolCallDelta accs frags) f i)"
    by simp
  also have "\<dots> =
     (if dtc_Index f = i
      then Some (if fn_Name (dtc_Function f) \<noteq> [] then fn_Name (dtc_Function f) else acc_name b)
      else Some (acc_name b))"
    by (simp add: accumulateToolCallDelta_name b)
  also have "\<dots> =
     Some (if namesAt i (frags @ [f]) = [] then acc_name a else last (namesAt i (frags @ [f])))"
    by (simp add: name namesAt_def fragmentsAt_def)
  finally show ?case .
qed


text \<open>
  Claim C4, amended. The claim says that a stored non-empty name is never overwritten
  by a later fragment at the same index. The guard of the code is on the incoming name,
  not on the stored one: a later fragment with a non-empty name replaces the stored
  name, and only a fragment with an empty name leaves it. What holds is: after a delta
  is processed, the stored name at an index is the last non-empty name the delta's
  fragments at that index carry, and is unchanged when they carry none.
\<close>

theorem stored_name_replaced_by_nonempty_name_only:
  "processChunk cb chunk st = Inr stAfter \<and> st_toolCallsMap st i = Some a
   \<longrightarrow> map_option acc_name (st_toolCallsMap stAfter i) =
         Some (if namesAt i (deltaToolCalls chunk) = [] then acc_name a
               else last (namesAt i (deltaToolCalls chunk)))"
proof
  assume h: "processChunk cb chunk st = Inr stAfter \<and> st_toolCallsMap st i = Some a"
  then have "processChunk cb chunk st = Inr stAfter"
    by simp
  then have "st_toolCallsMap stAfter =
      foldl accumulateToolCallDelta (st_toolCallsMap st) (deltaToolCalls chunk)"
    by (rule processChunk_toolCallsMap)
  with h show "map_option acc_name (st_toolCallsMap stAfter i) =
         Some (if namesAt i (deltaToolCalls chunk) = [] then acc_name a
               else last (namesAt i (deltaToolCalls chunk)))"
    by (simp add: foldl_accumulate_name)
qed


theorem stored_name_replaced_by_nonempty_name_only_witness:
  "processChunk None
     \<lparr>chunk_Choices =
        [\<lparr>chc_Delta =
            \<lparr>d_Content = [],
             d_ToolCalls =
               [\<lparr>dtc_Index = 0, dtc_ID = [],
                 dtc_Function = \<lparr>fn_Name = [], fn_Arguments = ''{}''\<rparr>\<rparr>,
                \<lparr>dtc_Index = 1, dtc_ID = ''call_1'',
                 dtc_Function = \<lparr>fn_Name = ''bar'', fn_Arguments = []\<rparr>\<rparr>]\<rparr>\<rparr>]\<rparr>
     \<lparr>st_fullText = [],
      st_toolCallsMap = [(0::int) \<mapsto> \<lparr>acc_id = ''call_0'', acc_name = ''foo'', acc_arguments = []\<rparr>],
      st_sink = ()\<rparr>
   = Inr \<lparr>st_fullText = [],
          st_toolCallsMap =
            [(0::int) \<mapsto> \<lparr>acc_id = ''call_0'', acc_name = ''foo'', acc_arguments = ''{}''\<rparr>,
             1 \<mapsto> \<lparr>acc_id = ''call_1'', acc_name = ''bar'', acc_arguments = []\<rparr>],
          st_sink = ()\<rparr>
   \<and> map_option acc_name
        ([(0::int) \<mapsto> \<lparr>acc_id = ''call_0'', acc_name = ''foo'', acc_arguments = ''{}''\<rparr>,
          1 \<mapsto> \<lparr>acc_id = ''call_1'', acc_name = ''bar'', acc_arguments = []\<rparr>] 0)
      = Some ''foo''"
proof -
  let ?chunk = "\<lparr>chunk_Choices =
        [\<lparr>chc_Delta =
            \<lparr>d_Content = [],
             d_ToolCalls =
               [\<lparr>dtc_Index = 0, dtc_ID = [],
                 dtc_Function = \<lparr>fn_Name = [], fn_Arguments = ''{}''\<rparr>\<rparr>,
                \<lparr>dtc_Index = 1, dtc_ID = ''call_1'',
                 dtc_Function = \<lparr>fn_Name = ''bar'', fn_Arguments = []\<rparr>\<rparr>]\<rparr>\<rparr>]\<rparr>"
  let ?a = "\<lparr>acc_id = ''call_0'', acc_name = ''foo'', acc_arguments = []\<rparr>"
  let ?st = "\<lparr>st_fullText = [], st_toolCallsMap = [(0::int) \<mapsto> ?a], st_sink = ()\<rparr>"
  let ?after = "\<lparr>st_fullText = [],
          st_toolCallsMap =
            [(0::int) \<mapsto> \<lparr>acc_id = ''call_0'', acc_name = ''foo'', acc_arguments = ''{}''\<rparr>,
             1 \<mapsto> \<lparr>acc_id = ''call_1'', acc_name = ''bar'', acc_arguments = []\<rparr>],
          st_sink = ()\<rparr>"
  have step: "processChunk (None :: ((unit, unit) streamCallback) option) ?chunk ?st = Inr ?after"
    by (simp add: processChunk_def handleContent_def accumulateToolCallDelta_def)
  have stored: "st_toolCallsMap ?st 0 = Some ?a"
    by simp
  have names: "namesAt 0 (deltaToolCalls ?chunk) = []"
    by (simp add: namesAt_def fragmentsAt_def deltaToolCalls_def)
  from stored_name_replaced_by_nonempty_name_only
         [where cb = "None :: ((unit, unit) streamCallback) option" and chunk = ?chunk
            and st = ?st and stAfter = ?after and i = 0 and a = ?a,
          THEN mp, OF conjI [OF step stored]]
  have kept: "map_option acc_name
        ([(0::int) \<mapsto> \<lparr>acc_id = ''call_0'', acc_name = ''foo'', acc_arguments = ''{}''\<rparr>,
          1 \<mapsto> \<lparr>acc_id = ''call_1'', acc_name = ''bar'', acc_arguments = []\<rparr>] 0)
      = Some ''foo''"
    by (simp add: names)
  show ?thesis
    by (intro conjI; (rule kept | simp add: processChunk_def handleContent_def accumulateToolCallDelta_def))
qed

text \<open>
  The claim C4 as it was stated, refuted: two deltas at index 0, the first named foo,
  the second named bar. After the first the stored name is foo, which is not empty;
  after the second it is bar.
\<close>

theorem stored_name_overwritten_counterexample:
  "streamLoop None
     [\<lparr>chunk_Choices =
         [\<lparr>chc_Delta =
             \<lparr>d_Content = [],
              d_ToolCalls =
                [\<lparr>dtc_Index = 0, dtc_ID = ''call_0'',
                  dtc_Function = \<lparr>fn_Name = ''foo'', fn_Arguments = []\<rparr>\<rparr>]\<rparr>\<rparr>]\<rparr>]
     (streamStart ())
   = Inr \<lparr>st_fullText = [],
          st_toolCallsMap = [0 \<mapsto> \<lparr>acc_id = ''call_0'', acc_name = ''foo'', acc_arguments = []\<rparr>],
          st_sink = ()\<rparr>
   \<and> streamLoop None
     [\<lparr>chunk_Choices =
         [\<lparr>chc_Delta =
             \<lparr>d_Content = [],
              d_ToolCalls =
                [\<lparr>dtc_Index = 0, dtc_ID = ''call_0'',
                  dtc_Function = \<lparr>fn_Name = ''foo'', fn_Arguments = []\<rparr>\<rparr>]\<rparr>\<rparr>]\<rparr>,
      \<lparr>chunk_Choices =
         [\<lparr>chc_Delta =
             \<lparr>d_Content = [],
              d_ToolCalls =
                [\<lparr>dtc_Index = 0, dtc_ID = [],
                  dtc_Function = \<lparr>fn_Name = ''bar'', fn_Arguments = []\<rparr>\<rparr>]\<rparr>\<rparr>]\<rparr>]
     (streamStart ())
   = Inr \<lparr>st_fullText = [],
          st_toolCallsMap = [0 \<mapsto> \<lparr>acc_id = ''call_0'', acc_name = ''bar'', acc_arguments = []\<rparr>],
          st_sink = ()\<rparr>
   \<and> ''foo'' \<noteq> [] \<and> ''bar'' \<noteq> ''foo''"
  by (simp add: processChunk_def handleContent_def accumulateToolCallDelta_def streamStart_def)

section \<open>Properties of the message translator\<close>

lemma Role_distinct:
  "RoleSystem \<noteq> RoleUser" "RoleSystem \<noteq> RoleModel" "RoleSystem \<noteq> RoleTool"
  "RoleUser \<noteq> RoleModel" "RoleUser \<noteq> RoleTool" "RoleModel \<noteq> RoleTool"
  by (simp_all add: RoleSystem_def RoleUser_def RoleModel_def RoleTool_def)

lemma convertMessagesToOpenAI_append:
  "convertMessagesToOpenAI marshal (xs @ ys) =
     convertMessagesToOpenAI marshal xs @ convertMessagesToOpenAI marshal ys"
  by (induction xs) simp_all

lemma convertMessage_length:
  "msg_Role msg \<in> {RoleSystem, RoleUser, RoleModel} \<Longrightarrow>
   length (convertMessage marshal msg) = (if msg_Content msg = [] then 0 else 1)"
  by (auto simp: convertMessage_def Role_distinct split: list.splits prod.splits)


text \<open>
  Claim C7, amended. The claim counts one wire message for every non-empty message of
  a text-only sequence. A tool-role message gives one wire message for each of its
  tool-response parts and none for a text part, so the count holds only without
  tool-role messages: for every sequence of system-role, user-role and model-role
  messages all of whose parts are text parts, the translator produces exactly as many
  wire messages as there are messages with a non-empty part sequence. (For these three
  roles the count does not depend on the kinds of the parts; the hypothesis on the
  parts is kept from the claim.)
\<close>

theorem convertMessagesToOpenAI_length:
  assumes "\<forall>msg \<in> set messages. msg_Role msg \<in> {RoleSystem, RoleUser, RoleModel}"
    and "\<forall>msg \<in> set messages. list_all IsText (msg_Content msg)"
  shows "length (convertMessagesToOpenAI marshal messages) =
           length (filter (\<lambda>msg. msg_Content msg \<noteq> []) messages)"
  using assms(1)
  by (induction messages) (simp_all add: convertMessage_length)

theorem convertMessagesToOpenAI_length_witness:
  "list_all (\<lambda>msg. msg_Role msg \<in> {RoleSystem, RoleUser, RoleModel})
     [\<lparr>msg_Role = RoleSystem, msg_Content = [NewTextPart ''be brief'' :: unit Part]\<rparr>,
      \<lparr>msg_Role = RoleUser, msg_Content = []\<rparr>,
      \<lparr>msg_Role = RoleModel, msg_Content = [NewTextPart ''hi'', NewTextPart ''there'']\<rparr>]
   \<and> list_all (\<lambda>msg. list_all IsText (msg_Content msg))
     [\<lparr>msg_Role = RoleSystem, msg_Content = [NewTextPart ''be brief'' :: unit Part]\<rparr>,
      \<lparr>msg_Role = RoleUser, msg_Content = []\<rparr>,
      \<lparr>msg_Role = RoleModel, msg_Content = [NewTextPart ''hi'', NewTextPart ''there'']\<rparr>]
   \<and> length (convertMessagesToOpenAI (\<lambda>v. Inr ''null'')
        [\<lparr>msg_Role = RoleSystem, msg_Content = [NewTextPart ''be brief'' :: unit Part]\<rparr>,
         \<lparr>msg_Role = RoleUser, msg_Content = []\<rparr>,
         \<lparr>msg_Role = RoleModel, msg_Content = [NewTextPart ''hi'', NewTextPart ''there'']\<rparr>]) = 2"
proof -
  let ?messages = "[\<lparr>msg_Role = RoleSystem, msg_Content = [NewTextPart ''be brief'' :: unit Part]\<rparr>,
                   \<lparr>msg_Role = RoleUser, msg_Content = []\<rparr>,
                   \<lparr>msg_Role = RoleModel, msg_Content = [NewTextPart ''hi'', NewTextPart ''there'']\<rparr>]"
  have roles: "\<forall>msg \<in> set ?messages. msg_Role msg \<in> {RoleSystem, RoleUser, RoleModel}"
    by simp
  have texts: "\<forall>msg \<in> set ?messages. list_all IsText (msg_Content msg)"
    by simp
  from convertMessagesToOpenAI_length [OF roles texts, of "\<lambda>v. Inr ''null''"]
  have "length (convertMessagesToOpenAI (\<lambda>v. Inr ''null'') ?messages) = 2"
    by simp
  then show ?thesis by simp
qed

text \<open>
  The claim C7 as it was stated, refuted: one tool-role message whose only part is a
  text part. It is text-only and not empty, and the translator produces no wire message
  for it.
\<close>

theorem convertMessagesToOpenAI_length_counterexample:
  "list_all IsText (msg_Content \<lparr>msg_Role = RoleTool, msg_Content = [NewTextPart ''42'' :: unit Part]\<rparr>)
   \<and> length (convertMessagesToOpenAI (\<lambda>v. Inr ''null'')
        [\<lparr>msg_Role = RoleTool, msg_Content = [NewTextPart ''42'' :: unit Part]\<rparr>]) = 0
   \<and> length (filter (\<lambda>msg. msg_Content msg \<noteq> [])
        [\<lparr>msg_Role = RoleTool, msg_Content = [NewTextPart ''42'' :: unit Part]\<rparr>]) = 1"
  by (simp add: convertMessage_def RoleSystem_def RoleUser_def RoleModel_def RoleTool_def)

text \<open>
  Where the first part of a system-role or user-role message is a text part, the
  translator gives exactly one wire message, of the message's role, whose content is
  the content of the first text part, however many parts follow and wherever the
  message stands in the sequence.
\<close>

lemma text_first_message:
  "msg_Content msg = NewTextPart s # others \<Longrightarrow>
   find IsText (msg_Content msg) = Some (NewTextPart s)
   \<and> (msg_Role msg = RoleSystem \<longrightarrow>
        convertMessagesToOpenAI marshal (before @ msg # after) =
          convertMessagesToOpenAI marshal before @ [OfSystem s]
          @ convertMessagesToOpenAI marshal after)
   \<and> (msg_Role msg = RoleUser \<longrightarrow>
        convertMessagesToOpenAI marshal (before @ msg # after) =
          convertMessagesToOpenAI marshal before @ [OfUser s]
          @ convertMessagesToOpenAI marshal after)"
  by (simp add: convertMessage_def convertMessagesToOpenAI_append Role_distinct
        Role_distinct [symmetric])

text \<open>
  Claim C8. For every system-role or user-role message with a non-empty part sequence
  the translator is to emit exactly one wire message whose content is the content of
  the message's first text part. The system and user branches read the field
  \<open>Text\<close> of the first part without asking for its kind, where the model-role
  branch of the same switch asks \<open>IsText\<close> before it reads the field. The code at
  a user-role message made of an image part followed by a text part: the first text
  part of the message is the question, and the content of the one wire message is the
  contents of the image part.
\<close>

theorem first_part_text_failing_input:
  "msg_Content \<lparr>msg_Role = RoleUser,
       msg_Content = [NewMediaPart ''image/jpeg'' ''data:image/jpeg;base64,AAAA'' :: unit Part,
                      NewTextPart ''What is in this image?'']\<rparr> \<noteq> []
   \<and> convertMessagesToOpenAI (\<lambda>v. Inr ''null'')
       [\<lparr>msg_Role = RoleUser,
         msg_Content = [NewMediaPart ''image/jpeg'' ''data:image/jpeg;base64,AAAA'' :: unit Part,
                        NewTextPart ''What is in this image?'']\<rparr>]
     = [OfUser ''data:image/jpeg;base64,AAAA'']
   \<and> find IsText [NewMediaPart ''image/jpeg'' ''data:image/jpeg;base64,AAAA'' :: unit Part,
                        NewTextPart ''What is in this image?'']
     = Some (NewTextPart ''What is in this image?'')
   \<and> ''data:image/jpeg;base64,AAAA'' \<noteq> ''What is in this image?''"
  by (simp add: convertMessage_def RoleSystem_def RoleUser_def)

end
